theory Spec2Isabelle
  imports Complex_Main "HOL-Library.Sublist"
begin

section \<open>JavaScript string and array primitives used by the handlers\<close>

text \<open>
  Strings are lists of characters; every character stands for one UTF-16 code unit
  below 256, which covers all label names, prompts and literals of the handlers.
  An absent value (\<open>undefined\<close> or \<open>null\<close>) is \<open>None\<close>.
\<close>

text \<open>\<open>s.startsWith(p)\<close>.\<close>

definition startsWith :: "string \<Rightarrow> string \<Rightarrow> bool" where
  "startsWith s p = (take (length p) s = p)"

text \<open>
  \<open>s.split(c)\<close> for a one-character separator: the segments between the separators,
  never the empty array (\<open>"".split(":")\<close> is \<open>[""]\<close>).
\<close>

fun split_on :: "char \<Rightarrow> string \<Rightarrow> string list" where
  "split_on c [] = [[]]"
| "split_on c (x # xs) =
     (if x = c then [] # split_on c xs
      else (case split_on c xs of
              [] \<Rightarrow> [[x]]
            | seg # segs \<Rightarrow> (x # seg) # segs))"

text \<open>\<open>arr[i]\<close>: \<open>undefined\<close> when the index is out of range.\<close>

definition index :: "'a list \<Rightarrow> nat \<Rightarrow> 'a option" where
  "index xs i = (if i < length xs then Some (xs ! i) else None)"

text \<open>
  \<open>s.replace(pat, rep)\<close> with a string pattern and a replacement without \<open>$\<close>:
  only the first occurrence of the pattern is replaced.
\<close>

fun replace :: "string \<Rightarrow> string \<Rightarrow> string \<Rightarrow> string" where
  "replace pat rep [] = (if pat = [] then rep else [])"
| "replace pat rep (x # xs) =
     (if startsWith (x # xs) pat then rep @ drop (length pat) (x # xs)
      else x # replace pat rep xs)"

text \<open>
  \<open>s.replace(/c/g, rep)\<close> for a one-character pattern: every occurrence is replaced.
\<close>

definition replace_all_char :: "char \<Rightarrow> string \<Rightarrow> string \<Rightarrow> string" where
  "replace_all_char c rep s = concat (map (\<lambda>x. if x = c then rep else [x]) s)"

text \<open>
  White space of \<open>trim\<close> among the code units below 256: tab, line feed, vertical
  tab, form feed, carriage return, space and no-break space.
\<close>

definition is_white_space :: "char \<Rightarrow> bool" where
  "is_white_space c = (of_char c \<in> {9, 10, 11, 12, 13, 32, 160 :: nat})"

definition trim :: "string \<Rightarrow> string" where
  "trim s = rev (dropWhile is_white_space (rev (dropWhile is_white_space s)))"

text \<open>\<open>arr.join(sep)\<close>.\<close>

fun join :: "string \<Rightarrow> string list \<Rightarrow> string" where
  "join sep [] = []"
| "join sep [x] = x"
| "join sep (x # y # ys) = x @ sep @ join sep (y # ys)"

text \<open>Truthiness of a possibly absent string: present and not empty.\<close>

fun truthy :: "string option \<Rightarrow> bool" where
  "truthy None = False"
| "truthy (Some s) = (s \<noteq> [])"

text \<open>\<open>a || b\<close> on possibly absent strings.\<close>

definition or_else :: "string option \<Rightarrow> string option \<Rightarrow> string option" where
  "or_else a b = (if truthy a then a else b)"

section \<open>Data model (api/annotate.ts)\<close>

text \<open>
  A label as the article query and the label query return it; its \<open>description\<close> can
  be \<open>null\<close>. A highlight carries the two fields the handlers read, \<open>id\<close> and \<open>type\<close>.
\<close>

record Label =
  name :: string
  description :: "string option"

record Highlight =
  highlight_id :: string
  highlight_type :: string

record Article =
  article_id :: string
  content :: string
  title :: string
  labels :: "Label list"
  highlights :: "Highlight list"
  existingNote :: "Highlight option"

record LabelAction =
  label :: string
  replacedLabel :: string
  processLabel :: string
  action :: "string option"
  prompts :: "string list"
  action_description :: "string option"
  is_done :: "bool option"

record WebhookLabel =
  wl_id :: string
  wl_name :: string
  wl_color :: string

text \<open>
  An entry of the untyped \<open>label.labels\<close> array of the payload: \<open>Malformed\<close> is any
  entry that is falsy, not an object, or has no \<open>name\<close> key.
\<close>

datatype wire_entry = Malformed | Entry WebhookLabel

record WebhookLabelPayload =
  wlp_labels :: "wire_entry list option"
  pageId :: "string option"

record WebhookPayload =
  payload_action :: string
  payload_label :: "WebhookLabelPayload option"

record Response =
  body :: string
  status :: nat

section \<open>Label classification (handler, annotate.ts:106-128)\<close>

text \<open>\<open>process.env["OMNIVORE_ANNOTATE_LABEL"] ?? "do"\<close>.\<close>

definition annotateLabel :: "string option \<Rightarrow> string" where
  "annotateLabel env_label = (case env_label of None \<Rightarrow> ''do'' | Some t \<Rightarrow> t)"

text \<open>\<open>(body.label?.labels || []).filter(...)\<close>: the well-formed entries.\<close>

fun well_formed :: "wire_entry list \<Rightarrow> WebhookLabel list" where
  "well_formed [] = []"
| "well_formed (Malformed # es) = well_formed es"
| "well_formed (Entry l # es) = l # well_formed es"

definition payload_labels :: "WebhookPayload \<Rightarrow> WebhookLabel list" where
  "payload_labels b =
     (case payload_label b of
        None \<Rightarrow> []
      | Some p \<Rightarrow> (case wlp_labels p of None \<Rightarrow> [] | Some es \<Rightarrow> well_formed es))"

definition matchingLabels :: "WebhookLabel list \<Rightarrow> string \<Rightarrow> string list" where
  "matchingLabels ls t =
     map wl_name (filter (\<lambda>l. wl_name l = t \<or> startsWith (wl_name l) (t @ '':'')) ls)"

section \<open>Label-action resolution (getLabelAction, annotate.ts:155-177)\<close>

text \<open>\<open>labels.find(l => l.name === labelName)?.description\<close>.\<close>

definition getLabelDescription :: "string \<Rightarrow> Label list \<Rightarrow> string option" where
  "getLabelDescription labelName ls =
     (case find (\<lambda>l. name l = labelName) ls of
        None \<Rightarrow> None
      | Some l \<Rightarrow> description l)"

definition fallback_prompt :: string where
  "fallback_prompt = ''Return a tweet-length TL;DR of the following article.''"

text \<open>
  \<open>description || process.env["OPENAI_PROMPT"] || "Return a tweet-length ..."\<close>;
  the last operand is a non-empty literal, so the result is a string.
\<close>

definition promptWithFallback :: "string option \<Rightarrow> string option \<Rightarrow> string" where
  "promptWithFallback descr env_prompt =
     (case or_else (or_else descr env_prompt) (Some fallback_prompt) of
        None \<Rightarrow> fallback_prompt
      | Some p \<Rightarrow> p)"

text \<open>
  The template literal \<open>`Existing note: ${article.existingNote}`\<close> interpolates the
  highlight object itself, whose string conversion is \<open>[object Object]\<close>.
\<close>

definition promptBodyArray :: "Article \<Rightarrow> string \<Rightarrow> string list" where
  "promptBodyArray article p =
     [p,
      ''Article title: '' @ title article,
      ''Article content: '' @ content article,
      (case existingNote article of
         Some n \<Rightarrow> ''Existing note: [object Object]''
       | None \<Rightarrow> [])]"

text \<open>
  \<open>getLabelAction1\<close> is the callback of \<open>matchingLabels.map(label => ...)\<close>; \<open>t\<close>
  is \<open>annotateLabel\<close> and \<open>env_prompt\<close> is \<open>process.env["OPENAI_PROMPT"]\<close>. The
  fields \<open>description\<close> and \<open>done\<close> of the action are \<open>action_description\<close> and
  \<open>is_done\<close> here; \<open>is_done\<close> is \<open>None\<close> for an object built without a \<open>done\<close>
  field, as the verbose variant does.
\<close>

definition getLabelAction1 :: "string \<Rightarrow> string option \<Rightarrow> Article \<Rightarrow> string \<Rightarrow> LabelAction" where
  "getLabelAction1 t env_prompt article l =
     (let descr = getLabelDescription l (labels article);
          p = promptWithFallback descr env_prompt
      in \<lparr> label = l,
           replacedLabel = replace (t @ '':'') ''did:'' l,
           processLabel = (case split_on CHR '':'' l of [] \<Rightarrow> [] | seg # _ \<Rightarrow> seg),
           action = index (split_on CHR '':'' l) 1,
           prompts = promptBodyArray article p,
           action_description = descr,
           is_done = Some False \<rparr>)"

definition getLabelAction :: "string \<Rightarrow> string option \<Rightarrow> string list \<Rightarrow> Article \<Rightarrow> LabelAction list" where
  "getLabelAction t env_prompt matching article =
     map (getLabelAction1 t env_prompt article) matching"

section \<open>Dispatch (annotate.ts:186-204, 320-360)\<close>

text \<open>
  \<open>labelActions.find(label => { label.action === currentAction && label.done === false })\<close>:
  the body of the callback is a block whose only statement is an expression statement,
  so the callback returns \<open>undefined\<close> for every element and \<open>find\<close> selects none.
\<close>

definition resolvedLabelActions :: "LabelAction list \<Rightarrow> string \<Rightarrow> LabelAction option" where
  "resolvedLabelActions labelActions currentAction = find (\<lambda>label. False) labelActions"

text \<open>\<open>hasOpenLabelActions\<close>: the pair \<open>(hasOpen, nextAction)\<close>.\<close>

definition hasOpenLabelActions :: "LabelAction list \<Rightarrow> bool \<times> LabelAction option" where
  "hasOpenLabelActions labelActions =
     (list_ex (\<lambda>label. is_done label = Some False) labelActions,
      find (\<lambda>label. is_done label = Some False) labelActions)"

text \<open>The branch of the handler's \<open>if / else if / else\<close> chain that is taken.\<close>

datatype decision =
    RunTagGeneration LabelAction
  | RunAnnotation LabelAction
  | NoCurrentAction
  | Unhandled

definition dispatch :: "LabelAction list \<Rightarrow> decision" where
  "dispatch labelActions =
     (case resolvedLabelActions labelActions ''tags'' of
        Some currentLabelActions \<Rightarrow> RunTagGeneration currentLabelActions
      | None \<Rightarrow>
          if fst (hasOpenLabelActions labelActions) then
            (case snd (hasOpenLabelActions labelActions) of
               None \<Rightarrow> NoCurrentAction
             | Some currentLabelAction \<Rightarrow> RunAnnotation currentLabelAction)
          else Unhandled)"

text \<open>
  The verbose variant (src/unnamed/part_000, lines 380-392) passes an expression-bodied
  callback: \<open>myLabelAction.find((label) => label.action === currentAction)\<close>, and
  returns \<open>{found, action}\<close>.
\<close>

definition resolvedLabelActions_verbose ::
  "string \<Rightarrow> LabelAction list \<Rightarrow> bool \<times> LabelAction option" where
  "resolvedLabelActions_verbose currentAction myLabelAction =
     (let matchingAction = find (\<lambda>label. action label = Some currentAction) myLabelAction
      in (matchingAction \<noteq> None, matchingAction))"

section \<open>Prompt assembly (arrayToPromptGenerator, annotate.ts:459-464)\<close>

definition newline :: string where
  "newline = [CHR 0x0A]"

text \<open>\<open>array.filter(item => item !== null && item.trim() !== "")\<close>.\<close>

fun non_blank :: "string option list \<Rightarrow> string list" where
  "non_blank [] = []"
| "non_blank (None # items) = non_blank items"
| "non_blank (Some item # items) =
     (if trim item \<noteq> [] then item # non_blank items else non_blank items)"

definition arrayToPromptGenerator :: "string option list \<Rightarrow> string" where
  "arrayToPromptGenerator array = join newline (map (\<lambda>item. ''- '' @ item) (non_blank array))"

text \<open>
  The verbose variant (src/unnamed/part_000, lines 494-499) filters with
  \<open>item !== null\<close> only.
\<close>

fun non_null :: "string option list \<Rightarrow> string list" where
  "non_null [] = []"
| "non_null (None # items) = non_null items"
| "non_null (Some item # items) = item # non_null items"

definition arrayToPromptGenerator_verbose :: "string option list \<Rightarrow> string" where
  "arrayToPromptGenerator_verbose array =
     join newline (map (\<lambda>item. ''- '' @ item) (non_null array))"

section \<open>Taxonomy prompt (labelsToPrompt, annotate.ts:471-496)\<close>

text \<open>\<open>JSON.stringify\<close> on strings: the quoted string with its escapes.\<close>

definition hex_digit :: "nat \<Rightarrow> char" where
  "hex_digit n = (if n < 10 then char_of (48 + n) else char_of (87 + n))"

definition json_escape :: "char \<Rightarrow> string" where
  "json_escape c =
     (let n = (of_char c :: nat) in
      if n = 34 then [CHR 0x5C, CHR 0x22]
      else if n = 92 then [CHR 0x5C, CHR 0x5C]
      else if n = 8 then [CHR 0x5C, CHR ''b'']
      else if n = 12 then [CHR 0x5C, CHR ''f'']
      else if n = 10 then [CHR 0x5C, CHR ''n'']
      else if n = 13 then [CHR 0x5C, CHR ''r'']
      else if n = 9 then [CHR 0x5C, CHR ''t'']
      else if n < 32 then [CHR 0x5C, CHR ''u'', CHR ''0'', CHR ''0'', hex_digit (n div 16), hex_digit (n mod 16)]
      else [c])"

definition json_string :: "string \<Rightarrow> string" where
  "json_string s = [CHR 0x22] @ concat (map json_escape s) @ [CHR 0x22]"

text \<open>\<open>{name: label.name, description: label.description || ""}\<close>.\<close>

definition name_and_description :: "Label \<Rightarrow> string \<times> string" where
  "name_and_description l =
     (name l, (case description l of None \<Rightarrow> [] | Some d \<Rightarrow> d))"

text \<open>\<open>JSON.stringify(json)\<close> for an array of such objects.\<close>

definition json_object :: "string \<times> string \<Rightarrow> string" where
  "json_object nd =
     ''{'' @ json_string ''name'' @ '':'' @ json_string (fst nd) @ '',''
          @ json_string ''description'' @ '':'' @ json_string (snd nd) @ ''}''"

definition json_stringify :: "(string \<times> string) list \<Rightarrow> string" where
  "json_stringify nds = ''['' @ join '','' (map json_object nds) @ '']''"

definition labelsWithoutAnnotationLabel :: "Label list \<Rightarrow> string \<Rightarrow> Label list" where
  "labelsWithoutAnnotationLabel ls t =
     filter (\<lambda>l. index (split_on CHR '':'' (name l)) 0 \<noteq> Some t) ls"

definition labelsToPrompt :: "Label list \<Rightarrow> string \<Rightarrow> string \<Rightarrow> bool \<Rightarrow> string option" where
  "labelsToPrompt ls t prePrompt returnJson =
     (if ls = [] then None
      else if returnJson then
        Some (json_stringify (map name_and_description (labelsWithoutAnnotationLabel ls t)))
      else
        Some (prePrompt @ '' '' @ join '', '' (map name (labelsWithoutAnnotationLabel ls t))))"

text \<open>
  The verbose variant (src/unnamed/part_000, lines 539-573) filters with
  \<open>!label.name.startsWith(annotateLabel)\<close>, returns \<open>null\<close> as well when nothing is
  left, and prints the array with \<open>JSON.stringify(json, null, 2)\<close> after the
  pre-prompt.
\<close>

definition json_object_pretty :: "string \<times> string \<Rightarrow> string" where
  "json_object_pretty nd =
     ''  {'' @ newline
     @ ''    '' @ json_string ''name'' @ '': '' @ json_string (fst nd) @ '','' @ newline
     @ ''    '' @ json_string ''description'' @ '': '' @ json_string (snd nd) @ newline
     @ ''  }''"

definition json_stringify_pretty :: "(string \<times> string) list \<Rightarrow> string" where
  "json_stringify_pretty nds =
     (if nds = [] then ''[]''
      else ''['' @ newline @ join ('','' @ newline) (map json_object_pretty nds)
           @ newline @ '']'')"

definition labelsWithoutAnnotationLabel_verbose :: "Label list \<Rightarrow> string \<Rightarrow> Label list" where
  "labelsWithoutAnnotationLabel_verbose ls t = filter (\<lambda>l. \<not> startsWith (name l) t) ls"

definition labelsToPrompt_verbose ::
  "Label list \<Rightarrow> string \<Rightarrow> string \<Rightarrow> bool \<Rightarrow> string option" where
  "labelsToPrompt_verbose ls t prePrompt returnJson =
     (if ls = [] then None
      else if labelsWithoutAnnotationLabel_verbose ls t = [] then None
      else if returnJson then
        Some (prePrompt @ '' ''
              @ json_stringify_pretty
                  (map name_and_description (labelsWithoutAnnotationLabel_verbose ls t)))
      else
        Some (prePrompt @ '' ''
              @ join '', '' (map name (labelsWithoutAnnotationLabel_verbose ls t))))"

section \<open>Reading a JSON string literal\<close>

text \<open>
  Not part of the handlers: the string that a JSON string literal denotes (RFC 8259,
  section 7), for code units below 256. It says what the text emitted by
  \<open>JSON.stringify\<close> for a string means.
\<close>

definition hex_value :: "char \<Rightarrow> nat option" where
  "hex_value c =
     (let n = (of_char c :: nat) in
      if 48 \<le> n \<and> n \<le> 57 then Some (n - 48)
      else if 97 \<le> n \<and> n \<le> 102 then Some (n - 87)
      else if 65 \<le> n \<and> n \<le> 70 then Some (n - 55)
      else None)"

definition hex4 :: "char \<Rightarrow> char \<Rightarrow> char \<Rightarrow> char \<Rightarrow> nat option" where
  "hex4 a b x y =
     (case (hex_value a, hex_value b, hex_value x, hex_value y) of
        (Some p, Some q, Some r, Some s) \<Rightarrow> Some (((p * 16 + q) * 16 + r) * 16 + s)
      | _ \<Rightarrow> None)"

definition simple_escape :: "char \<Rightarrow> char option" where
  "simple_escape e =
     (if e = CHR 0x22 then Some (CHR 0x22)
      else if e = CHR 0x5C then Some (CHR 0x5C)
      else if e = CHR ''/'' then Some (CHR ''/'')
      else if e = CHR ''b'' then Some (CHR 0x08)
      else if e = CHR ''f'' then Some (CHR 0x0C)
      else if e = CHR ''n'' then Some (CHR 0x0A)
      else if e = CHR ''r'' then Some (CHR 0x0D)
      else if e = CHR ''t'' then Some (CHR 0x09)
      else None)"

fun json_unescape :: "string \<Rightarrow> string option" where
  "json_unescape [] = Some []"
| "json_unescape (c # cs) =
     (if c = CHR 0x5C then
        (case cs of
           [] \<Rightarrow> None
         | e # rest \<Rightarrow>
             if e = CHR ''u'' then
               (case rest of
                  a # b # x # y # rest' \<Rightarrow>
                    (case hex4 a b x y of
                       None \<Rightarrow> None
                     | Some k \<Rightarrow>
                         if k < 256 then map_option ((#) (char_of k)) (json_unescape rest')
                         else None)
                | _ \<Rightarrow> None)
             else
               (case simple_escape e of
                  None \<Rightarrow> None
                | Some d \<Rightarrow> map_option ((#) d) (json_unescape rest)))
      else if c = CHR 0x22 \<or> (of_char c :: nat) < 32 then None
      else map_option ((#) c) (json_unescape cs))"

definition json_string_value :: "string \<Rightarrow> string option" where
  "json_string_value s =
     (case s of
        [] \<Rightarrow> None
      | q # rest \<Rightarrow>
          if q = CHR 0x22 \<and> rest \<noteq> [] \<and> last rest = CHR 0x22 then json_unescape (butlast rest)
          else None)"

section \<open>Parsed JSON (the verbose variant's \<open>JSON.parse(response)\<close>)\<close>

text \<open>
  A value as \<open>JSON.parse\<close> returns it; an object is the list of its keys and values.
\<close>

datatype json_value =
    JNull
  | JBool bool
  | JNumber rat
  | JString string
  | JArray "json_value list"
  | JObject "(string \<times> json_value) list"






section \<open>External collaborators\<close>

text \<open>
  What the outside world answers during one invocation: the environment variables,
  the article query, the label query, the chat completion (the \<open>content\<close> of its first
  choice, given the prompt and whether a JSON schema is requested), the write-back
  request and the UUID generator. \<open>Inl msg\<close> is a call that throws an error with
  that message.
\<close>

record FetchedArticle =
  fetched_content :: string
  fetched_title :: string
  fetched_labels :: "Label list"
  fetched_highlights :: "Highlight list"

record World =
  env_OMNIVORE_ANNOTATE_LABEL :: "string option"
  env_OPENAI_PROMPT :: "string option"
  article_query :: "string \<Rightarrow> string + FetchedArticle"
  labels_query :: "string + Label list"
  chat_completion :: "string \<Rightarrow> bool \<Rightarrow> string + string option"
  write_back_error :: "string option"
  uuidv4 :: string

text \<open>
  The mutations sent to Omnivore, with the \<open>input\<close> variables of each;
  \<open>SetLabelObjects\<close> is the \<open>SetLabels\<close> mutation of the verbose variant, whose
  \<open>labels\<close> variable is an array of objects.
\<close>

datatype mutation =
    SetLabels string "string list"
  | SetLabelObjects string "json_value list"
  | UpdateHighlight string string
  | CreateHighlight string string string string

text \<open>
  The result of running a piece of the handler: a response together with the mutations
  sent, or an exception with its message together with the mutations sent before it.
\<close>

datatype outcome =
    Returned Response "mutation list"
  | Threw string "mutation list"

section \<open>Article query (getArticle, annotate.ts:369-457)\<close>

definition getArticle :: "World \<Rightarrow> string \<Rightarrow> string + Article" where
  "getArticle w articleId =
     (case article_query w articleId of
        Inl e \<Rightarrow> Inl e
      | Inr f \<Rightarrow>
          Inr \<lparr> article_id = articleId,
                content = fetched_content f,
                title = fetched_title f,
                labels = fetched_labels f,
                highlights = fetched_highlights f,
                existingNote = find (\<lambda>h. highlight_type h = ''NOTE'') (fetched_highlights f) \<rparr>)"

section \<open>Write-back (annotate.ts:571-791)\<close>

text \<open>
  \<open>new Response(text)\<close> has status 200. The two annotation functions catch a failing
  request themselves and return a response with status 500.
\<close>

definition updateAnnotationInOmnivoreArticle ::
  "World \<Rightarrow> string \<Rightarrow> string \<Rightarrow> Highlight \<Rightarrow> Response \<times> mutation list" where
  "updateAnnotationInOmnivoreArticle w articleId annotation note =
     ((case write_back_error w of
         None \<Rightarrow> \<lparr> body = ''Article annotation updated.'', status = 200 \<rparr>
       | Some e \<Rightarrow> \<lparr> body = ''Error adding annotation to Omnivore article: '' @ e, status = 500 \<rparr>),
      [UpdateHighlight (highlight_id note) annotation])"

definition addAnnotationToOmnivoreArticle ::
  "World \<Rightarrow> string \<Rightarrow> string \<Rightarrow> Response \<times> mutation list" where
  "addAnnotationToOmnivoreArticle w articleId annotation =
     (let id = uuidv4 w;
          shortId = take 8 id
      in ((case write_back_error w of
             None \<Rightarrow> \<lparr> body = ''Article annotation added.'', status = 200 \<rparr>
           | Some e \<Rightarrow> \<lparr> body = ''Error adding annotation to Omnivore article: '' @ e, status = 500 \<rparr>),
          [CreateHighlight id shortId articleId annotation]))"

definition applyAnnotationToOmnivoreArticle ::
  "World \<Rightarrow> string \<Rightarrow> string \<Rightarrow> Highlight option \<Rightarrow> Response \<times> mutation list" where
  "applyAnnotationToOmnivoreArticle w articleId annotation note =
     (case note of
        Some n \<Rightarrow> updateAnnotationInOmnivoreArticle w articleId annotation n
      | None \<Rightarrow> addAnnotationToOmnivoreArticle w articleId annotation)"

text \<open>\<open>addLabelsToOmnivoreArticle\<close> catches nothing: a failing request throws.\<close>

definition addLabelsToOmnivoreArticle :: "World \<Rightarrow> string \<Rightarrow> string list \<Rightarrow> outcome" where
  "addLabelsToOmnivoreArticle w articleId ls =
     (case write_back_error w of
        None \<Rightarrow>
          Returned \<lparr> body = ''New tags added to the article and action updated to did: action.'',
                     status = 200 \<rparr>
                   [SetLabels articleId ls]
      | Some e \<Rightarrow> Threw e [SetLabels articleId ls])"

section \<open>Tag-generation flow (annotate.ts:204-319)\<close>

text \<open>
  \<open>content?.trim().split("\n").map(tag => tag.trim()).filter(tag => tag &&
  !article.labels.some(existing => existing.name === tag))\<close>.
\<close>

definition generatedTags :: "Label list \<Rightarrow> string option \<Rightarrow> string list option" where
  "generatedTags articleLabels completion_content =
     (case completion_content of
        None \<Rightarrow> None
      | Some c \<Rightarrow>
          Some (filter (\<lambda>tag. tag \<noteq> [] \<and> \<not> list_ex (\<lambda>existing. name existing = tag) articleLabels)
                  (map trim (split_on CHR 0x0A (trim c)))))"

text \<open>
  The instruction text \<open>doTagsPrompt\<close> (annotate.ts:239-244) is a fixed literal of
  the source; it is a parameter here.
\<close>

definition tags_flow :: "World \<Rightarrow> string \<Rightarrow> string \<Rightarrow> Article \<Rightarrow> LabelAction \<Rightarrow> outcome" where
  "tags_flow w doTagsPrompt t article currentLabelActions =
     (let articleLabelsPrompt = labelsToPrompt (labels article) t ''Existing article tags: '' True
      in case labels_query w of
           Inl e \<Rightarrow> Threw e []
         | Inr allLabels \<Rightarrow>
             (let allLabelsPrompt = labelsToPrompt allLabels t ''All labels in Omnivore: '' True;
                  prompt = arrayToPromptGenerator
                             ([Some doTagsPrompt] @ map Some (prompts currentLabelActions)
                              @ [articleLabelsPrompt, allLabelsPrompt])
              in case chat_completion w prompt True of
                   Inl e \<Rightarrow> Threw e []
                 | Inr completion_content \<Rightarrow>
                     (case generatedTags (labels article) completion_content of
                        None \<Rightarrow> Returned \<lparr> body = ''No new tags generated.'', status = 200 \<rparr> []
                      | Some tags \<Rightarrow>
                          if tags = [] then
                            Returned \<lparr> body = ''No new tags generated.'', status = 200 \<rparr> []
                          else
                            (let newLabels = map name (labels article) @ tags
                                             @ [replacedLabel currentLabelActions]
                             in case addLabelsToOmnivoreArticle w (article_id article) newLabels of
                                  Threw e ms \<Rightarrow> Threw e ms
                                | Returned r ms \<Rightarrow>
                                    Returned \<lparr> body = ''New tags added to the article and action updated to did: action.'',
                                               status = 200 \<rparr> ms))))"

section \<open>Annotation flow (annotate.ts:320-356)\<close>

text \<open>\<open>content?.trim().replace(/\\/g, "\\\\").replace(/"/g, '\\"')\<close>.\<close>

definition generatedResponse :: "string option \<Rightarrow> string option" where
  "generatedResponse completion_content =
     (case completion_content of
        None \<Rightarrow> None
      | Some c \<Rightarrow>
          Some (replace_all_char (CHR 0x22) [CHR 0x5C, CHR 0x22]
                  (replace_all_char (CHR 0x5C) [CHR 0x5C, CHR 0x5C] (trim c))))"

definition annotation_flow :: "World \<Rightarrow> Article \<Rightarrow> LabelAction \<Rightarrow> outcome" where
  "annotation_flow w article currentLabelAction =
     (let prompt = arrayToPromptGenerator (map Some (prompts currentLabelAction))
      in case chat_completion w prompt False of
           Inl e \<Rightarrow> Threw e []
         | Inr completion_content \<Rightarrow>
             (case generatedResponse completion_content of
                None \<Rightarrow> Returned \<lparr> body = ''No generated response from OpenAI.'', status = 500 \<rparr> []
              | Some annotation \<Rightarrow>
                  if annotation = [] then
                    Returned \<lparr> body = ''No generated response from OpenAI.'', status = 500 \<rparr> []
                  else
                    Returned \<lparr> body = ''Annotation applied to the article.'', status = 200 \<rparr>
                      (snd (applyAnnotationToOmnivoreArticle w (article_id article) annotation
                              (existingNote article)))))"

section \<open>The webhook handler (annotate.ts:104-367)\<close>

definition quote :: string where
  "quote = [CHR 0x27]"

definition handler_body :: "World \<Rightarrow> string \<Rightarrow> WebhookPayload \<Rightarrow> outcome" where
  "handler_body w doTagsPrompt b =
     (let t = annotateLabel (env_OMNIVORE_ANNOTATE_LABEL w);
          ls = payload_labels b
      in if ls = [] then
           Returned \<lparr> body = ''No labels found in the webhook payload.'', status = 400 \<rparr> []
         else
           (let matching = matchingLabels ls t
            in if matching = [] then
                 Returned \<lparr> body = ''No '' @ quote @ t @ quote
                                    @ '' labels found. Expected at least one '' @ quote @ t @ quote
                                    @ '' or '' @ quote @ t @ '':*'' @ quote @ '' label.'',
                            status = 400 \<rparr> []
               else
                 (case (case payload_label b of None \<Rightarrow> None | Some p \<Rightarrow> pageId p) of
                    None \<Rightarrow> Threw ''No article ID found in the webhook payload.'' []
                  | Some articleId \<Rightarrow>
                      if articleId = [] then Threw ''No article ID found in the webhook payload.'' []
                      else
                        (case getArticle w articleId of
                           Inl e \<Rightarrow> Threw e []
                         | Inr article \<Rightarrow>
                             (case dispatch (getLabelAction t (env_OPENAI_PROMPT w) matching article) of
                                RunTagGeneration currentLabelActions \<Rightarrow>
                                  tags_flow w doTagsPrompt t article currentLabelActions
                              | RunAnnotation currentLabelAction \<Rightarrow>
                                  annotation_flow w article currentLabelAction
                              | NoCurrentAction \<Rightarrow>
                                  Returned \<lparr> body = ''No current label action found.'', status = 400 \<rparr> []
                              | Unhandled \<Rightarrow>
                                  Returned \<lparr> body = ''Unhandled action: '' @ payload_action b,
                                             status = 400 \<rparr> [])))))"

text \<open>The \<open>try / catch\<close> around the whole body turns every exception into a 500.\<close>

definition handler :: "World \<Rightarrow> string \<Rightarrow> WebhookPayload \<Rightarrow> Response \<times> mutation list" where
  "handler w doTagsPrompt b =
     (case handler_body w doTagsPrompt b of
        Returned r ms \<Rightarrow> (r, ms)
      | Threw e ms \<Rightarrow>
          (\<lparr> body = ''Error processing Omnivore webhook: '' @ e, status = 500 \<rparr>, ms))"

section \<open>The verbose handler (src/unnamed/part_000, lines 101-378 and 509-537)\<close>




text \<open>The catch-all branch (lines 328-366), with the assembler of this variant.\<close>

definition annotation_flow_verbose :: "World \<Rightarrow> Article \<Rightarrow> LabelAction \<Rightarrow> outcome" where
  "annotation_flow_verbose w article currentLabelAction =
     (let prompt = arrayToPromptGenerator_verbose (map Some (prompts currentLabelAction))
      in case chat_completion w prompt False of
           Inl e \<Rightarrow> Threw e []
         | Inr completion_content \<Rightarrow>
             (case generatedResponse completion_content of
                None \<Rightarrow> Returned \<lparr> body = ''No generated response from OpenAI.'', status = 500 \<rparr> []
              | Some annotation \<Rightarrow>
                  if annotation = [] then
                    Returned \<lparr> body = ''No generated response from OpenAI.'', status = 500 \<rparr> []
                  else
                    Returned \<lparr> body = ''Annotation applied to the article.'', status = 200 \<rparr>
                      (snd (applyAnnotationToOmnivoreArticle w (article_id article) annotation
                              (existingNote article)))))"




section \<open>The legacy handler's tag write-back (src/unnamed/part_000, lines 1148-1182)\<close>

text \<open>
  The legacy variant computes \<open>generatedTags\<close> in the same way, builds the list
  \<open>labels\<close> of the existing names, the generated tags and \<open>didAction\<close>, and then
  passes \<open>generatedTags\<close> to \<open>addLabelsToOmnivoreArticle\<close>.
\<close>

definition tags_write_back_legacy ::
  "World \<Rightarrow> string \<Rightarrow> Label list \<Rightarrow> string \<Rightarrow> string option \<Rightarrow> outcome" where
  "tags_write_back_legacy w articleId articleLabels payload_act completion_content =
     (let didAction = replace ''do:'' ''did:'' payload_act
      in case generatedTags articleLabels completion_content of
           None \<Rightarrow> Returned \<lparr> body = ''No new tags generated.'', status = 200 \<rparr> []
         | Some tags \<Rightarrow>
             if tags = [] then
               Returned \<lparr> body = ''No new tags generated.'', status = 200 \<rparr> []
             else
               (let ls = map name articleLabels @ tags @ [didAction]
                in case addLabelsToOmnivoreArticle w articleId tags of
                     Threw e ms \<Rightarrow> Threw e ms
                   | Returned r ms \<Rightarrow>
                       Returned \<lparr> body = ''New tags added to the article and action updated to did: action.'',
                                  status = 200 \<rparr> ms))"

section \<open>Concrete inputs\<close>

text \<open>An article without a note and one with a note and described trigger labels.\<close>

definition example_article :: Article where
  "example_article =
     \<lparr> article_id = ''a1'', content = ''C'', title = ''T'',
       labels = [\<lparr>name = ''x'', description = None\<rparr>],
       highlights = [], existingNote = None \<rparr>"

definition example_described :: Article where
  "example_described =
     \<lparr> article_id = ''a2'', content = ''C'', title = ''T'',
       labels = [\<lparr>name = ''do:summary'', description = Some ''Summarise''\<rparr>,
                 \<lparr>name = ''do:task'', description = Some ''''\<rparr>],
       highlights = [\<lparr>highlight_id = ''h1'', highlight_type = ''NOTE''\<rparr>],
       existingNote = Some \<lparr>highlight_id = ''h1'', highlight_type = ''NOTE''\<rparr> \<rparr>"

text \<open>The answers of the outside world and the payloads used in the examples.\<close>

definition example_world :: World where
  "example_world =
     \<lparr> env_OMNIVORE_ANNOTATE_LABEL = None,
       env_OPENAI_PROMPT = None,
       article_query =
         (\<lambda>articleId. Inr \<lparr> fetched_content = ''C'', fetched_title = ''T'',
                               fetched_labels = [\<lparr>name = ''x'', description = None\<rparr>],
                               fetched_highlights = [] \<rparr>),
       labels_query = Inr [\<lparr>name = ''x'', description = None\<rparr>,
                           \<lparr>name = ''y'', description = None\<rparr>],
       chat_completion = (\<lambda>prompt json. Inr (Some ''y'')),
       write_back_error = None,
       uuidv4 = ''123e4567-e89b-12d3-a456-426614174000'' \<rparr>"

definition example_payload :: "string \<Rightarrow> WebhookPayload" where
  "example_payload l =
     \<lparr> payload_action = ''created'',
       payload_label =
         Some \<lparr> wlp_labels = Some [Entry \<lparr>wl_id = ''1'', wl_name = l, wl_color = ''#000''\<rparr>],
                pageId = Some ''a1'' \<rparr> \<rparr>"

definition example_world_described :: World where
  "example_world_described =
     example_world
       \<lparr> article_query :=
           (\<lambda>articleId. Inr \<lparr> fetched_content = ''C'', fetched_title = ''T'',
                                 fetched_labels = [\<lparr>name = ''do:summary'', description = Some ''Summarise''\<rparr>,
                                                   \<lparr>name = ''do:task'', description = Some ''''\<rparr>],
                                 fetched_highlights = [\<lparr>highlight_id = ''h1'', highlight_type = ''NOTE''\<rparr>] \<rparr>) \<rparr>"



definition example_labels :: "Label list" where
  "example_labels =
     [\<lparr>name = ''do:tags'', description = Some ''gen''\<rparr>,
      \<lparr>name = ''x'', description = None\<rparr>,
      \<lparr>name = ''do'', description = None\<rparr>,
      \<lparr>name = ''dox'', description = Some ''d''\<rparr>]"

section \<open>Facts about the string primitives\<close>

lemma startsWith_prefix: "startsWith s p \<longleftrightarrow> prefix p s"
  unfolding startsWith_def prefix_def
  by (metis append_eq_conv_conj append_take_drop_id)

lemma split_on_not_Nil: "split_on c s \<noteq> []"
  by (induction s) (auto split: list.splits)

lemma split_on_no_sep: "c \<notin> set s \<Longrightarrow> split_on c s = [s]"
  by (induction s) auto

lemma split_on_first: "c \<notin> set pre \<Longrightarrow> split_on c (pre @ c # rest) = pre # split_on c rest"
  by (induction pre) auto

lemma split_on_head: "index (split_on c s) 0 = Some (takeWhile (\<lambda>x. x \<noteq> c) s)"
proof (induction s)
  case Nil
  show ?case by (simp add: index_def)
next
  case (Cons x xs)
  then show ?case
    by (cases "split_on c xs") (auto simp: index_def split_on_not_Nil split: if_splits)
qed

section \<open>Classification\<close>

text \<open>
  C5: for every label list and trigger \<open>t\<close>, classification returns exactly the names
  that equal \<open>t\<close> or start with \<open>t:\<close>, in input order and with repetitions kept (it is
  the name list filtered by that condition), and the result is empty if and only if no
  label qualifies.
\<close>

theorem matchingLabels_exact:
  "matchingLabels ls t = filter (\<lambda>n. n = t \<or> prefix (t @ '':'') n) (map wl_name ls)
   \<and> (matchingLabels ls t = [] \<longleftrightarrow>
        \<not> (\<exists>l \<in> set ls. wl_name l = t \<or> prefix (t @ '':'') (wl_name l)))"
proof
  show "matchingLabels ls t = filter (\<lambda>n. n = t \<or> prefix (t @ '':'') n) (map wl_name ls)"
    by (simp add: matchingLabels_def startsWith_prefix filter_map comp_def)
  show "matchingLabels ls t = [] \<longleftrightarrow>
        \<not> (\<exists>l \<in> set ls. wl_name l = t \<or> prefix (t @ '':'') (wl_name l))"
    by (auto simp: matchingLabels_def startsWith_prefix filter_empty_conv)
qed

theorem matchingLabels_exact_witness:
  "matchingLabels
     [\<lparr>wl_id = ''1'', wl_name = ''do:tags'', wl_color = ''''\<rparr>,
      \<lparr>wl_id = ''2'', wl_name = ''dox'', wl_color = ''''\<rparr>,
      \<lparr>wl_id = ''3'', wl_name = ''do'', wl_color = ''''\<rparr>,
      \<lparr>wl_id = ''1'', wl_name = ''do:tags'', wl_color = ''''\<rparr>] ''do''
   = [''do:tags'', ''do'', ''do:tags'']
   \<and> matchingLabels [\<lparr>wl_id = ''2'', wl_name = ''dox'', wl_color = ''''\<rparr>] ''do'' = []"
  using matchingLabels_exact
          [of "[\<lparr>wl_id = ''1'', wl_name = ''do:tags'', wl_color = ''''\<rparr>,
                \<lparr>wl_id = ''2'', wl_name = ''dox'', wl_color = ''''\<rparr>,
                \<lparr>wl_id = ''3'', wl_name = ''do'', wl_color = ''''\<rparr>,
                \<lparr>wl_id = ''1'', wl_name = ''do:tags'', wl_color = ''''\<rparr>]" "''do''"]
        matchingLabels_exact
          [of "[\<lparr>wl_id = ''2'', wl_name = ''dox'', wl_color = ''''\<rparr>]" "''do''"]
  by simp



section \<open>More facts about \<open>split\<close> and \<open>replace\<close>\<close>

lemma index_Cons_Suc: "index (x # xs) (Suc i) = index xs i"
  by (simp add: index_def)

lemma split_on_second:
  "c \<notin> set pre \<Longrightarrow> index (split_on c (pre @ c # rest)) 1 = Some (takeWhile (\<lambda>x. x \<noteq> c) rest)"
proof -
  assume "c \<notin> set pre"
  then have "index (split_on c (pre @ c # rest)) 1 = index (split_on c rest) 0"
    using index_Cons_Suc [of pre "split_on c rest" 0] by (simp add: split_on_first)
  then show ?thesis by (simp add: split_on_head)
qed

lemma replace_no_occurrence: "\<not> sublist pat s \<Longrightarrow> replace pat rep s = s"
proof (induction s)
  case Nil
  then show ?case by auto
next
  case (Cons x xs)
  from Cons.prems have "\<not> prefix pat (x # xs)"
    using prefix_imp_sublist by blast
  moreover from Cons.prems have "\<not> sublist pat xs"
    by (simp add: sublist_Cons_right)
  ultimately show ?case
    using Cons.IH by (simp add: startsWith_prefix)
qed

lemma replace_first_occurrence:
  "(\<forall>i<length pre. \<not> prefix pat (drop i (pre @ pat @ post))) \<Longrightarrow>
   replace pat rep (pre @ pat @ post) = pre @ rep @ post"
proof (induction pre)
  case Nil
  show ?case
  proof (cases "pat @ post")
    case Nil
    then show ?thesis by simp
  next
    case (Cons a list)
    have "startsWith (pat @ post) pat" by (simp add: startsWith_prefix)
    moreover have "drop (length pat) (pat @ post) = post" by simp
    ultimately have "replace pat rep (a # list) = rep @ post"
      unfolding Cons by simp
    then show ?thesis by (simp add: Cons)
  qed
next
  case (Cons a pre)
  from Cons.prems have "\<not> prefix pat (a # pre @ pat @ post)"
    by force
  moreover have "\<forall>i<length pre. \<not> prefix pat (drop i (pre @ pat @ post))"
  proof (intro allI impI)
    fix i assume "i < length pre"
    then have "Suc i < length (a # pre)" by simp
    with Cons.prems have "\<not> prefix pat (drop (Suc i) ((a # pre) @ pat @ post))" by blast
    then show "\<not> prefix pat (drop i (pre @ pat @ post))" by simp
  qed
  ultimately show ?case
    using Cons.IH by (simp add: startsWith_prefix)
qed

lemma bare_trigger_no_occurrence: "\<not> sublist (t @ '':'') t"
proof
  assume "sublist (t @ '':'') t"
  then have "length (t @ '':'') \<le> length t"
    by (rule sublist_length_le)
  then show False by simp
qed

section \<open>Resolution\<close>

lemma action_of_getLabelAction1: "action (getLabelAction1 t env article l) = index (split_on CHR '':'' l) 1"
  by (simp add: getLabelAction1_def Let_def)

text \<open>
  C4, as amended: the operation of a name is its segment between the first and the
  second colon (up to the end of the name if there is only one colon), and it is absent
  (\<open>undefined\<close>) when the name has no colon.
\<close>

theorem action_second_segment:
  "(CHR '':'' \<notin> set l \<longrightarrow> action (getLabelAction1 t env article l) = None)
   \<and> (CHR '':'' \<notin> set pre \<longrightarrow>
         action (getLabelAction1 t env article (pre @ '':'' @ rest))
           = Some (takeWhile (\<lambda>c. c \<noteq> CHR '':'') rest))"
proof (intro conjI impI)
  assume "CHR '':'' \<notin> set l"
  then show "action (getLabelAction1 t env article l) = None"
    by (simp add: action_of_getLabelAction1 split_on_no_sep index_def)
next
  assume "CHR '':'' \<notin> set pre"
  then show "action (getLabelAction1 t env article (pre @ '':'' @ rest))
               = Some (takeWhile (\<lambda>c. c \<noteq> CHR '':'') rest)"
    using split_on_second [of "CHR '':''" pre rest]
    by (simp add: action_of_getLabelAction1)
qed

theorem action_second_segment_witness:
  "action (getLabelAction1 ''do'' None example_article ''do'') = None
   \<and> action (getLabelAction1 ''do'' None example_article ''do:a:b'') = Some ''a''"
  using action_second_segment
          [where l = "''do''" and pre = "''do''" and rest = "''a:b''" and t = "''do''"
             and env = None and article = example_article]
  by simp

text \<open>
  C4 as stated fails: for \<open>do:a:b\<close> the operation is not \<open>a:b\<close>, and for the bare
  trigger \<open>do\<close> it is not the empty string.
\<close>

theorem action_after_first_colon_counterexample:
  "action (getLabelAction1 ''do'' None example_article ''do:a:b'') \<noteq> Some ''a:b''
   \<and> action (getLabelAction1 ''do'' None example_article ''do'') \<noteq> Some ''''"
  by (simp add: action_of_getLabelAction1 index_def)

lemma prompts_of_getLabelAction1:
  "prompts (getLabelAction1 t env article l) =
     [promptWithFallback (getLabelDescription l (labels article)) env,
      ''Article title: '' @ title article,
      ''Article content: '' @ content article,
      (if existingNote article = None then '''' else ''Existing note: [object Object]'')]"
  by (simp add: getLabelAction1_def Let_def promptBodyArray_def split: option.splits)

lemma getLabelDescription_bind:
  "getLabelDescription l ls = Option.bind (find (\<lambda>x. name x = l) ls) description"
  by (simp add: getLabelDescription_def split: option.splits)

lemma promptWithFallback_cases:
  "truthy d \<Longrightarrow> Some (promptWithFallback d e) = d"
  "\<not> truthy d \<Longrightarrow> truthy e \<Longrightarrow> Some (promptWithFallback d e) = e"
  "\<not> truthy d \<Longrightarrow> \<not> truthy e \<Longrightarrow> promptWithFallback d e = fallback_prompt"
  by (cases d; cases e; simp add: promptWithFallback_def or_else_def fallback_prompt_def)+

text \<open>
  C8: the prompt template, the first prompt fragment of the action of a name, is the
  description of the first article label with exactly that name if that is non-empty,
  else the configured default prompt if that is non-empty, else the literal
  \<open>Return a tweet-length TL;DR of the following article.\<close>
\<close>

theorem prompt_template_fallback:
  "(let d = Option.bind (find (\<lambda>x. name x = l) (labels article)) description;
        template = index (prompts (getLabelAction1 t env_prompt article l)) 0
    in (truthy d \<longrightarrow> template = d)
       \<and> (\<not> truthy d \<and> truthy env_prompt \<longrightarrow> template = env_prompt)
       \<and> (\<not> truthy d \<and> \<not> truthy env_prompt \<longrightarrow>
            template = Some ''Return a tweet-length TL;DR of the following article.''))"
proof -
  have t: "index (prompts (getLabelAction1 t env_prompt article l)) 0
             = Some (promptWithFallback (getLabelDescription l (labels article)) env_prompt)"
    by (simp add: prompts_of_getLabelAction1 index_def)
  show ?thesis
    unfolding Let_def t getLabelDescription_bind
    using promptWithFallback_cases
            [of "Option.bind (find (\<lambda>x. name x = l) (labels article)) description" env_prompt]
    by (simp add: fallback_prompt_def)
qed

theorem prompt_template_fallback_witness:
  "index (prompts (getLabelAction1 ''do'' (Some ''E'') example_described ''do:summary'')) 0
     = Some ''Summarise''
   \<and> index (prompts (getLabelAction1 ''do'' (Some ''E'') example_described ''do:task'')) 0
     = Some ''E''
   \<and> index (prompts (getLabelAction1 ''do'' None example_described ''do:other'')) 0
     = Some ''Return a tweet-length TL;DR of the following article.''"
  using prompt_template_fallback [of "''do:summary''" example_described "''do''" "Some ''E''"]
        prompt_template_fallback [of "''do:task''" example_described "''do''" "Some ''E''"]
        prompt_template_fallback [of "''do:other''" example_described "''do''" None]
  by (simp add: example_described_def Let_def)

lemma label_of_getLabelAction1: "label (getLabelAction1 t env article l) = l"
  by (simp add: getLabelAction1_def Let_def)

lemma replacedLabel_of_getLabelAction1:
  "replacedLabel (getLabelAction1 t env article l) = replace (t @ '':'') ''did:'' l"
  by (simp add: getLabelAction1_def Let_def)

text \<open>
  C6, as amended: the resolver produces one action per name, in input order; the
  replacement label is the name with the first occurrence of \<open>t:\<close> replaced by
  \<open>did:\<close>, the name itself when \<open>t:\<close> does not occur, in particular for the bare
  trigger; the prompt fragment list always has the four entries template, title,
  content, note, and the note entry is the empty string when the article has no note.
\<close>

theorem resolve_one_action_per_name:
  "map label (getLabelAction t env matching article) = matching
   \<and> (i < length matching \<longrightarrow>
        (let a = getLabelAction t env matching article ! i;
             l = matching ! i
         in label a = l
            \<and> (l = t \<longrightarrow> replacedLabel a = l)
            \<and> (\<not> sublist (t @ '':'') l \<longrightarrow> replacedLabel a = l)
            \<and> (l = pre @ (t @ '':'') @ post
                \<and> (\<forall>j<length pre. \<not> prefix (t @ '':'') (drop j l))
                \<longrightarrow> replacedLabel a = pre @ ''did:'' @ post)
            \<and> prompts a =
                [promptWithFallback (getLabelDescription l (labels article)) env,
                 ''Article title: '' @ title article,
                 ''Article content: '' @ content article,
                 (if existingNote article = None then '''' else ''Existing note: [object Object]'')]))"
proof (intro conjI impI)
  show "map label (getLabelAction t env matching article) = matching"
    by (simp add: getLabelAction_def comp_def label_of_getLabelAction1)
next
  assume i: "i < length matching"
  define l where "l = matching ! i"
  have a: "getLabelAction t env matching article ! i = getLabelAction1 t env article l"
    using i by (simp add: getLabelAction_def l_def)
  have bare: "l = t \<longrightarrow> replace (t @ '':'') ''did:'' l = l"
    using bare_trigger_no_occurrence [of t] replace_no_occurrence by blast
  have none: "\<not> sublist (t @ '':'') l \<longrightarrow> replace (t @ '':'') ''did:'' l = l"
    using replace_no_occurrence by blast
  have first: "l = pre @ (t @ '':'') @ post
                 \<and> (\<forall>j<length pre. \<not> prefix (t @ '':'') (drop j l))
               \<longrightarrow> replace (t @ '':'') ''did:'' l = pre @ ''did:'' @ post"
    using replace_first_occurrence [of pre "t @ '':''" post "''did:''"] by auto
  show "let a = getLabelAction t env matching article ! i;
            l = matching ! i
        in label a = l
           \<and> (l = t \<longrightarrow> replacedLabel a = l)
           \<and> (\<not> sublist (t @ '':'') l \<longrightarrow> replacedLabel a = l)
           \<and> (l = pre @ (t @ '':'') @ post
               \<and> (\<forall>j<length pre. \<not> prefix (t @ '':'') (drop j l))
               \<longrightarrow> replacedLabel a = pre @ ''did:'' @ post)
           \<and> prompts a =
               [promptWithFallback (getLabelDescription l (labels article)) env,
                ''Article title: '' @ title article,
                ''Article content: '' @ content article,
                (if existingNote article = None then '''' else ''Existing note: [object Object]'')]"
    unfolding Let_def a l_def [symmetric]
    using bare none first
    by (simp only: label_of_getLabelAction1 replacedLabel_of_getLabelAction1
                   prompts_of_getLabelAction1 simp_thms)
qed

theorem resolve_one_action_per_name_witness:
  "map label (getLabelAction ''do'' None [''do:do:x'', ''do''] example_article) = [''do:do:x'', ''do'']
   \<and> replacedLabel (getLabelAction ''do'' None [''do:do:x'', ''do''] example_article ! 0) = ''did:do:x''
   \<and> replacedLabel (getLabelAction ''do'' None [''do:do:x'', ''do''] example_article ! 1) = ''do''
   \<and> prompts (getLabelAction ''do'' None [''do:do:x'', ''do''] example_article ! 0) =
        [''Return a tweet-length TL;DR of the following article.'',
         ''Article title: T'', ''Article content: C'', '''']"
  using resolve_one_action_per_name
          [where t = "''do''" and env = None and matching = "[''do:do:x'', ''do'']"
             and article = example_article and i = 0 and pre = "''''" and post = "''do:x''"]
        resolve_one_action_per_name
          [where t = "''do''" and env = None and matching = "[''do:do:x'', ''do'']"
             and article = example_article and i = 1 and pre = "''''" and post = "''''"]
  by (simp add: Let_def example_article_def getLabelDescription_def promptWithFallback_def
                or_else_def fallback_prompt_def)

text \<open>
  C6 as stated fails: for an article without a note the fragment list of an action
  still has four entries, the last of them the empty string.
\<close>

theorem prompts_keep_empty_fragment_counterexample:
  "prompts (getLabelAction ''do'' None [''do:summary''] example_article ! 0) =
     [''Return a tweet-length TL;DR of the following article.'',
      ''Article title: T'', ''Article content: C'', '''']
   \<and> '''' \<in> set (prompts (getLabelAction ''do'' None [''do:summary''] example_article ! 0))"
  by (simp add: getLabelAction_def prompts_of_getLabelAction1 example_article_def
                getLabelDescription_def promptWithFallback_def or_else_def fallback_prompt_def)



section \<open>Dispatch\<close>

lemma find_False: "find (\<lambda>x. False) xs = None"
  by (induction xs) auto

lemma dispatch_never_tags: "dispatch ls \<noteq> RunTagGeneration a"
  by (simp add: dispatch_def resolvedLabelActions_def find_False split: option.splits)

lemma dispatch_first_action:
  "dispatch (a # as) = (if is_done a = Some False then RunAnnotation a else dispatch as)"
  by (simp add: dispatch_def resolvedLabelActions_def find_False hasOpenLabelActions_def)

lemma resolvedLabelActions_verbose_first:
  "resolvedLabelActions_verbose cur (pre @ a # post) = (True, Some a)"
  if "action a = Some cur" "\<forall>b \<in> set pre. action b \<noteq> Some cur"
  using that by (induction pre) (auto simp: resolvedLabelActions_verbose_def)

text \<open>
  C1 fails on annotate.ts: for the single matching label \<open>do:tags\<close>, whose action has
  the operation \<open>tags\<close>, the dispatch step does not select tag generation; it runs the
  annotation flow on that action. (No input makes it select tag generation, see
  \<open>dispatch_never_tags\<close>; the verbose variant selects the first \<open>tags\<close> action, see
  \<open>resolvedLabelActions_verbose_first\<close>.)
\<close>

theorem dispatch_misses_tags:
  "dispatch (getLabelAction ''do'' None [''do:tags''] example_article)
     = RunAnnotation (getLabelAction1 ''do'' None example_article ''do:tags'')
   \<and> action (getLabelAction1 ''do'' None example_article ''do:tags'') = Some ''tags''"
  by (simp add: getLabelAction_def dispatch_first_action action_of_getLabelAction1 index_def)
     (simp add: getLabelAction1_def Let_def)

section \<open>Prompt assembly\<close>

lemma trim_empty_iff: "trim s = [] \<longleftrightarrow> list_all is_white_space s"
proof
  assume "trim s = []"
  then have "\<forall>x \<in> set (dropWhile is_white_space s). is_white_space x"
    by (simp add: trim_def)
  then have "dropWhile is_white_space s = []"
    using hd_dropWhile [of is_white_space s] hd_in_set by blast
  then show "list_all is_white_space s"
    by (simp add: list_all_iff)
next
  assume "list_all is_white_space s"
  then show "trim s = []"
    by (auto simp: trim_def list_all_iff dest: set_dropWhileD)
qed

lemma non_blank_filter:
  "non_blank array = filter (\<lambda>item. \<not> list_all is_white_space item) (non_null array)"
  by (induction array rule: non_blank.induct) (simp_all add: trim_empty_iff)

lemma arrayToPromptGenerator_drops_blank:
  "arrayToPromptGenerator array =
     join newline (map (\<lambda>item. ''- '' @ item)
                     (filter (\<lambda>item. \<not> list_all is_white_space item) (non_null array)))"
  by (simp add: arrayToPromptGenerator_def non_blank_filter)

lemma arrayToPromptGenerator_example:
  "arrayToPromptGenerator [Some ''a'', None, Some '''', Some ''b''] = ''- a'' @ newline @ ''- b''"
  by (simp add: arrayToPromptGenerator_def trim_def is_white_space_def)

text \<open>
  C2 fails on the verbose variant: its assembler keeps the empty fragment, so the
  fragments \<open>a\<close>, \<open>null\<close>, the empty string and \<open>b\<close> give three lines, not the two
  lines \<open>- a\<close> and \<open>- b\<close>. (The assembler of annotate.ts drops blank fragments, see
  \<open>arrayToPromptGenerator_drops_blank\<close> and \<open>arrayToPromptGenerator_example\<close>.)
\<close>

theorem arrayToPromptGenerator_verbose_keeps_empty:
  "arrayToPromptGenerator_verbose [Some ''a'', None, Some '''', Some ''b'']
     = ''- a'' @ newline @ ''- '' @ newline @ ''- b''
   \<and> arrayToPromptGenerator_verbose [Some ''a'', None, Some '''', Some ''b'']
     \<noteq> ''- a'' @ newline @ ''- b''"
  by (simp add: arrayToPromptGenerator_verbose_def newline_def)

section \<open>Annotation flow\<close>

lemma existingNote_of_getArticle:
  "getArticle w articleId = Inr article \<Longrightarrow>
   existingNote article = find (\<lambda>h. highlight_type h = ''NOTE'') (highlights article)
   \<and> article_id article = articleId"
  by (auto simp: getArticle_def split: sum.splits)

text \<open>
  C9: in the annotation flow with a non-empty generated annotation, an article that has
  a highlight of type \<open>NOTE\<close> gets exactly one mutation, the update of the first such
  highlight, keyed by its id; an article without one gets exactly one mutation, the
  creation of a note whose id is the generated UUID and whose short id is the first
  eight characters of that UUID.
\<close>

theorem annotation_updates_or_creates_note:
  assumes "getArticle w articleId = Inr article"
      and "chat_completion w (arrayToPromptGenerator (map Some (prompts currentLabelAction))) False
             = Inr completion_content"
      and "generatedResponse completion_content = Some annotation"
      and "annotation \<noteq> []"
  shows "(find (\<lambda>h. highlight_type h = ''NOTE'') (highlights article) = Some existing \<longrightarrow>
            annotation_flow w article currentLabelAction
              = Returned \<lparr> body = ''Annotation applied to the article.'', status = 200 \<rparr>
                  [UpdateHighlight (highlight_id existing) annotation])
         \<and> (find (\<lambda>h. highlight_type h = ''NOTE'') (highlights article) = None \<longrightarrow>
            annotation_flow w article currentLabelAction
              = Returned \<lparr> body = ''Annotation applied to the article.'', status = 200 \<rparr>
                  [CreateHighlight (uuidv4 w) (take 8 (uuidv4 w)) articleId annotation])"
  using assms existingNote_of_getArticle [OF assms(1)]
  by (simp add: annotation_flow_def applyAnnotationToOmnivoreArticle_def
                updateAnnotationInOmnivoreArticle_def addAnnotationToOmnivoreArticle_def Let_def)

lemma generatedResponse_y: "generatedResponse (Some ''y'') = Some ''y''"
  by (simp add: generatedResponse_def trim_def replace_all_char_def is_white_space_def)

theorem annotation_updates_or_creates_note_witness:
  "annotation_flow example_world example_article (getLabelAction1 ''do'' None example_article ''do'')
     = Returned \<lparr> body = ''Annotation applied to the article.'', status = 200 \<rparr>
         [CreateHighlight ''123e4567-e89b-12d3-a456-426614174000'' ''123e4567'' ''a1'' ''y'']
   \<and> annotation_flow example_world_described example_described
         (getLabelAction1 ''do'' None example_described ''do'')
     = Returned \<lparr> body = ''Annotation applied to the article.'', status = 200 \<rparr>
         [UpdateHighlight ''h1'' ''y'']"
proof -
  have a1: "getArticle example_world ''a1'' = Inr example_article"
    by (simp add: getArticle_def example_world_def example_article_def)
  have a2: "getArticle example_world_described ''a2'' = Inr example_described"
    by (simp add: getArticle_def example_world_described_def example_described_def)
  have c1: "chat_completion example_world p False = Inr (Some ''y'')" for p
    by (simp add: example_world_def)
  have c2: "chat_completion example_world_described p False = Inr (Some ''y'')" for p
    by (simp add: example_world_described_def example_world_def)
  have y: "''y'' \<noteq> []" by simp
  show ?thesis
    using annotation_updates_or_creates_note
            [OF a1 c1 generatedResponse_y y, where currentLabelAction = "getLabelAction1 ''do'' None example_article ''do''"]
          annotation_updates_or_creates_note
            [OF a2 c2 generatedResponse_y y,
             where existing = "\<lparr>highlight_id = ''h1'', highlight_type = ''NOTE''\<rparr>"
               and currentLabelAction = "getLabelAction1 ''do'' None example_described ''do''"]
    by (simp add: example_article_def example_described_def example_world_def
                  example_world_described_def)
qed

text \<open>
  Seen from outside: a webhook whose only label is \<open>do:tags\<close> makes the handler of
  annotate.ts write a note, not labels.
\<close>

lemma handler_annotates_on_tags_label:
  "handler example_world ''Generate tags'' (example_payload ''do:tags'')
     = (\<lparr> body = ''Annotation applied to the article.'', status = 200 \<rparr>,
        [CreateHighlight ''123e4567-e89b-12d3-a456-426614174000'' ''123e4567'' ''a1'' ''y''])"
proof -
  have d: "dispatch (getLabelAction ''do'' None [''do:tags''] article)
             = RunAnnotation (getLabelAction1 ''do'' None article ''do:tags'')" for article
    by (simp add: getLabelAction_def dispatch_first_action) (simp add: getLabelAction1_def Let_def)
  have m: "matchingLabels (payload_labels (example_payload ''do:tags'')) ''do'' = [''do:tags'']"
    by (simp add: matchingLabels_def payload_labels_def example_payload_def startsWith_def)
  have p: "payload_labels (example_payload ''do:tags'') \<noteq> []"
    by (simp add: payload_labels_def example_payload_def)
  have f: "annotation_flow example_world example_article cur
             = Returned \<lparr> body = ''Annotation applied to the article.'', status = 200 \<rparr>
                 [CreateHighlight ''123e4567-e89b-12d3-a456-426614174000'' ''123e4567'' ''a1'' ''y'']"
    for cur
    by (simp add: annotation_flow_def example_world_def generatedResponse_y example_article_def
                  applyAnnotationToOmnivoreArticle_def addAnnotationToOmnivoreArticle_def Let_def)
  have e: "env_OMNIVORE_ANNOTATE_LABEL example_world = None"
          "env_OPENAI_PROMPT example_world = None"
    by (simp_all add: example_world_def)
  have g: "getArticle example_world ''a1'' = Inr example_article"
    by (simp add: getArticle_def example_world_def example_article_def)
  have i: "payload_label (example_payload ''do:tags'')
             = Some \<lparr> wlp_labels = Some [Entry \<lparr>wl_id = ''1'', wl_name = ''do:tags'', wl_color = ''#000''\<rparr>],
                      pageId = Some ''a1'' \<rparr>"
    by (simp add: example_payload_def)
  show ?thesis
    by (simp add: handler_def handler_body_def Let_def e annotateLabel_def p m i g d f)
qed

section \<open>Empty completion responses\<close>





lemma generatedResponse_empty:
  "c = None \<or> c = Some '''' \<Longrightarrow> generatedResponse c = None \<or> generatedResponse c = Some ''''"
  by (auto simp: generatedResponse_def trim_def replace_all_char_def)


lemma annotation_flow_verbose_empty:
  assumes "c = None \<or> c = Some ''''"
      and "\<And>prompt json. chat_completion w prompt json = Inr c"
  shows "annotation_flow_verbose w article cur
           = Returned \<lparr> body = ''No generated response from OpenAI.'', status = 500 \<rparr> []"
  using generatedResponse_empty [OF assms(1)]
  by (auto simp: annotation_flow_verbose_def assms(2) Let_def)











text \<open>
  The tags branch of annotate.ts, which no invocation reaches, would answer an empty
  completion with status 200.
\<close>

lemma generatedTags_empty:
  "c = None \<or> c = Some '''' \<Longrightarrow> generatedTags ls c = None \<or> generatedTags ls c = Some []"
  by (auto simp: generatedTags_def trim_def)

lemma tags_flow_empty:
  assumes "c = None \<or> c = Some ''''"
      and "\<And>prompt json. chat_completion w prompt json = Inr c"
      and "labels_query w = Inr allLabels"
  shows "tags_flow w doTagsPrompt t article cur
           = Returned \<lparr> body = ''No new tags generated.'', status = 200 \<rparr> []"
  using generatedTags_empty [OF assms(1), of "labels article"]
  by (auto simp: tags_flow_def assms(2,3) Let_def)

section \<open>Tag write-back\<close>

lemma generatedTags_y:
  "generatedTags [\<lparr>name = ''x'', description = None\<rparr>] (Some ''y'') = Some [''y'']"
  by (simp add: generatedTags_def trim_def is_white_space_def)

lemma tags_flow_writes_union:
  assumes "tags_flow w doTagsPrompt t article cur = Returned r ms" and "ms \<noteq> []"
  shows "\<exists>c tags. generatedTags (labels article) c = Some tags
           \<and> ms = [SetLabels (article_id article)
                      (map name (labels article) @ tags @ [replacedLabel cur])]"
  using assms
  by (auto simp: tags_flow_def addLabelsToOmnivoreArticle_def Let_def
           split: sum.splits option.splits if_splits)

lemma tags_flow_example:
  "tags_flow example_world ''Generate tags'' ''do'' example_article
       (getLabelAction1 ''do'' None example_article ''do:tags'')
     = Returned \<lparr> body = ''New tags added to the article and action updated to did: action.'',
                  status = 200 \<rparr>
         [SetLabels ''a1'' [''x'', ''y'', ''did:tags'']]"
proof -
  have r: "replacedLabel (getLabelAction1 ''do'' None example_article ''do:tags'') = ''did:tags''"
    by (simp add: replacedLabel_of_getLabelAction1 startsWith_def)
  have l: "labels example_article = [\<lparr>name = ''x'', description = None\<rparr>]"
          "article_id example_article = ''a1''"
    by (simp_all add: example_article_def)
  have w: "labels_query example_world = Inr [\<lparr>name = ''x'', description = None\<rparr>,
                                              \<lparr>name = ''y'', description = None\<rparr>]"
          "chat_completion example_world p j = Inr (Some ''y'')"
          "write_back_error example_world = None" for p j
    by (simp_all add: example_world_def)
  show ?thesis
    by (simp add: tags_flow_def Let_def w l r generatedTags_y addLabelsToOmnivoreArticle_def)
qed

lemma tags_flow_keeps_duplicates:
  "tags_flow example_world ''Generate tags'' ''do''
       (example_article \<lparr> labels := [\<lparr>name = ''did:tags'', description = None\<rparr>] \<rparr>)
       (getLabelAction1 ''do'' None example_article ''do:tags'')
     = Returned \<lparr> body = ''New tags added to the article and action updated to did: action.'',
                  status = 200 \<rparr>
         [SetLabels ''a1'' [''did:tags'', ''y'', ''did:tags'']]"
proof -
  have r: "replacedLabel (getLabelAction1 ''do'' None example_article ''do:tags'') = ''did:tags''"
    by (simp add: replacedLabel_of_getLabelAction1 startsWith_def)
  have t: "generatedTags [\<lparr>name = ''did:tags'', description = None\<rparr>] (Some ''y'') = Some [''y'']"
    by (simp add: generatedTags_def trim_def is_white_space_def)
  have l: "article_id example_article = ''a1''"
    by (simp add: example_article_def)
  have w: "labels_query example_world = Inr [\<lparr>name = ''x'', description = None\<rparr>,
                                              \<lparr>name = ''y'', description = None\<rparr>]"
          "chat_completion example_world p j = Inr (Some ''y'')"
          "write_back_error example_world = None" for p j
    by (simp_all add: example_world_def)
  show ?thesis
    by (simp add: tags_flow_def Let_def w l r t addLabelsToOmnivoreArticle_def)
qed

text \<open>
  C7 fails on the legacy variant: for an article with the label \<open>x\<close>, the action
  \<open>do:tags\<close> and the generated tag \<open>y\<close>, the label list written back is \<open>y\<close> alone,
  not \<open>x\<close>, \<open>y\<close>, \<open>did:tags\<close>. (The tag-generation flow of annotate.ts writes the
  concatenation of the three parts, see \<open>tags_flow_writes_union\<close> and
  \<open>tags_flow_example\<close>.)
\<close>

theorem legacy_writes_generated_tags_only:
  "tags_write_back_legacy example_world ''a1'' [\<lparr>name = ''x'', description = None\<rparr>]
       ''do:tags'' (Some ''y'')
     = Returned \<lparr> body = ''New tags added to the article and action updated to did: action.'',
                  status = 200 \<rparr>
         [SetLabels ''a1'' [''y'']]"
proof -
  have w: "write_back_error example_world = None"
    by (simp add: example_world_def)
  show ?thesis
    by (simp add: tags_write_back_legacy_def Let_def generatedTags_y
                  addLabelsToOmnivoreArticle_def w)
qed

section \<open>Taxonomy prompt\<close>

lemma char_of_of_char_nat: "char_of (of_char c :: nat) = c"
  by simp

lemma char_eqI: "(of_char c :: nat) = n \<Longrightarrow> (of_char d :: nat) = n \<Longrightarrow> c = d"
  by (metis of_char_eq_iff)

lemma hex_value_hex_digit: "k < 16 \<Longrightarrow> hex_value (hex_digit k) = Some k"
proof -
  assume "k < 16"
  then have "k = 0 \<or> k = 1 \<or> k = 2 \<or> k = 3 \<or> k = 4 \<or> k = 5 \<or> k = 6 \<or> k = 7
             \<or> k = 8 \<or> k = 9 \<or> k = 10 \<or> k = 11 \<or> k = 12 \<or> k = 13 \<or> k = 14 \<or> k = 15"
    by arith
  then show ?thesis
    by (elim disjE) (simp_all add: hex_value_def hex_digit_def Let_def)
qed

lemma hex4_control:
  "n < 32 \<Longrightarrow> hex4 (CHR ''0'') (CHR ''0'') (hex_digit (n div 16)) (hex_digit (n mod 16)) = Some n"
proof -
  assume n: "n < 32"
  then have "n div 16 < 16" by simp
  moreover have "n mod 16 < 16" by simp
  moreover have "hex_value (CHR ''0'') = Some 0"
    by (simp add: hex_value_def)
  ultimately show ?thesis
    by (simp add: hex4_def hex_value_hex_digit)
qed

lemma json_unescape_escape:
  "json_unescape (json_escape c @ rest) = map_option ((#) c) (json_unescape rest)"
proof -
  define n where "n = (of_char c :: nat)"
  have c: "c = char_of n" by (simp add: n_def)
  consider "n = 34" | "n = 92" | "n = 8" | "n = 12" | "n = 10" | "n = 13" | "n = 9"
    | "n < 32" "n \<notin> {8, 9, 10, 12, 13}" | "32 \<le> n" "n \<noteq> 34" "n \<noteq> 92"
    by force
  then show ?thesis
  proof cases
    case 8
    then have e: "json_escape c = [CHR 0x5C, CHR ''u'', CHR ''0'', CHR ''0'',
                                   hex_digit (n div 16), hex_digit (n mod 16)]"
      by (auto simp: json_escape_def n_def [symmetric] Let_def)
    from 8 have "n < 256" by simp
    then show ?thesis
      using hex4_control [OF 8(1)] by (simp add: e c [symmetric])
  next
    case 9
    then have e: "json_escape c = [c]"
      by (auto simp: json_escape_def n_def [symmetric] Let_def)
    from 9 have "c \<noteq> CHR 0x5C" "c \<noteq> CHR 0x22" "\<not> (of_char c :: nat) < 32"
      by (auto simp: n_def)
    then show ?thesis
      by (simp add: e)
  next
    case 1
    then have "c = CHR 0x22" by (intro char_eqI [of c 34]) (simp_all add: n_def)
    then show ?thesis by (simp add: json_escape_def simple_escape_def)
  next
    case 2
    then have "c = CHR 0x5C" by (intro char_eqI [of c 92]) (simp_all add: n_def)
    then show ?thesis by (simp add: json_escape_def simple_escape_def)
  next
    case 3
    then have "c = CHR 0x08" by (intro char_eqI [of c 8]) (simp_all add: n_def)
    then show ?thesis by (simp add: json_escape_def simple_escape_def)
  next
    case 4
    then have "c = CHR 0x0C" by (intro char_eqI [of c 12]) (simp_all add: n_def)
    then show ?thesis by (simp add: json_escape_def simple_escape_def)
  next
    case 5
    then have "c = CHR 0x0A" by (intro char_eqI [of c 10]) (simp_all add: n_def)
    then show ?thesis by (simp add: json_escape_def simple_escape_def)
  next
    case 6
    then have "c = CHR 0x0D" by (intro char_eqI [of c 13]) (simp_all add: n_def)
    then show ?thesis by (simp add: json_escape_def simple_escape_def)
  next
    case 7
    then have "c = CHR 0x09" by (intro char_eqI [of c 9]) (simp_all add: n_def)
    then show ?thesis by (simp add: json_escape_def simple_escape_def)
  qed
qed

lemma json_unescape_concat:
  "json_unescape (concat (map json_escape s)) = Some s"
  by (induction s) (simp_all add: json_unescape_escape del: json_unescape.simps(2))

lemma json_string_value_json_string: "json_string_value (json_string s) = Some s"
  by (simp add: json_string_value_def json_string_def json_unescape_concat butlast_append)

lemma json_escape_plain:
  "32 \<le> (of_char c :: nat) \<Longrightarrow> c \<noteq> CHR 0x22 \<Longrightarrow> c \<noteq> CHR 0x5C \<Longrightarrow> json_escape c = [c]"
proof -
  assume a: "32 \<le> (of_char c :: nat)" "c \<noteq> CHR 0x22" "c \<noteq> CHR 0x5C"
  have "(of_char c :: nat) \<noteq> 34"
    using a(2) char_eqI [of c 34 "CHR 0x22"] by auto
  moreover have "(of_char c :: nat) \<noteq> 92"
    using a(3) char_eqI [of c 92 "CHR 0x5C"] by auto
  ultimately show ?thesis
    using a(1) by (simp add: json_escape_def Let_def)
qed

lemma json_string_plain:
  "\<forall>c \<in> set s. 32 \<le> (of_char c :: nat) \<and> c \<noteq> CHR 0x22 \<and> c \<noteq> CHR 0x5C \<Longrightarrow>
   json_string s = [CHR 0x22] @ s @ [CHR 0x22]"
proof -
  assume "\<forall>c \<in> set s. 32 \<le> (of_char c :: nat) \<and> c \<noteq> CHR 0x22 \<and> c \<noteq> CHR 0x5C"
  then have "concat (map json_escape s) = s"
    by (induction s) (simp_all add: json_escape_plain)
  then show ?thesis
    by (simp add: json_string_def)
qed

lemma join_map:
  "join sep (map f xs) = (case xs of [] \<Rightarrow> [] | x # ys \<Rightarrow> f x @ concat (map (\<lambda>y. sep @ f y) ys))"
proof (induction xs)
  case Nil
  show ?case by simp
next
  case (Cons x xs)
  then show ?case by (cases xs) simp_all
qed

lemma split_on_head_neq:
  "index (split_on c s) 0 \<noteq> Some t \<longleftrightarrow> takeWhile (\<lambda>x. x \<noteq> c) s \<noteq> t"
  by (simp add: split_on_head)

lemma labelsWithoutAnnotationLabel_filter:
  "labelsWithoutAnnotationLabel ls t
     = filter (\<lambda>l. takeWhile (\<lambda>c. c \<noteq> CHR '':'') (name l) \<noteq> t) ls"
  by (simp add: labelsWithoutAnnotationLabel_def split_on_head_neq)

lemma labelsWithoutAnnotationLabel_verbose_filter:
  "labelsWithoutAnnotationLabel_verbose ls t = filter (\<lambda>l. \<not> prefix t (name l)) ls"
  by (simp add: labelsWithoutAnnotationLabel_verbose_def startsWith_prefix)

lemma json_stringify_text:
  "json_stringify (map name_and_description ks) =
     ''['' @ (case ks of
               [] \<Rightarrow> []
             | x # ys \<Rightarrow>
                 (''{'' @ [CHR 0x22] @ ''name'' @ [CHR 0x22] @ '':'' @ json_string (name x) @ '',''
                  @ [CHR 0x22] @ ''description'' @ [CHR 0x22] @ '':''
                  @ json_string (case description x of None \<Rightarrow> [] | Some d \<Rightarrow> d) @ ''}'')
                 @ concat (map (\<lambda>y. '','' @ (''{'' @ [CHR 0x22] @ ''name'' @ [CHR 0x22] @ '':''
                                   @ json_string (name y) @ '','' @ [CHR 0x22] @ ''description''
                                   @ [CHR 0x22] @ '':''
                                   @ json_string (case description y of None \<Rightarrow> [] | Some d \<Rightarrow> d)
                                   @ ''}'')) ys))
     @ '']''"
proof -
  have q: "json_string ''name'' = [CHR 0x22] @ ''name'' @ [CHR 0x22]"
          "json_string ''description'' = [CHR 0x22] @ ''description'' @ [CHR 0x22]"
    by (simp_all add: json_string_def json_escape_def)
  show ?thesis
    unfolding json_stringify_def map_map join_map
    by (simp add: comp_def json_object_def name_and_description_def q split: list.splits)
qed

lemma json_stringify_pretty_text:
  "ks \<noteq> [] \<Longrightarrow>
   json_stringify_pretty (map name_and_description ks) =
     ''['' @ [CHR 0x0A]
     @ (case ks of
          [] \<Rightarrow> []
        | x # ys \<Rightarrow>
            (''  {'' @ [CHR 0x0A] @ ''    '' @ [CHR 0x22] @ ''name'' @ [CHR 0x22] @ '': ''
             @ json_string (name x) @ '','' @ [CHR 0x0A] @ ''    '' @ [CHR 0x22] @ ''description''
             @ [CHR 0x22] @ '': '' @ json_string (case description x of None \<Rightarrow> [] | Some d \<Rightarrow> d)
             @ [CHR 0x0A] @ ''  }'')
            @ concat (map (\<lambda>y. ('','' @ [CHR 0x0A])
                              @ (''  {'' @ [CHR 0x0A] @ ''    '' @ [CHR 0x22] @ ''name'' @ [CHR 0x22]
                                 @ '': '' @ json_string (name y) @ '','' @ [CHR 0x0A] @ ''    ''
                                 @ [CHR 0x22] @ ''description'' @ [CHR 0x22] @ '': ''
                                 @ json_string (case description y of None \<Rightarrow> [] | Some d \<Rightarrow> d)
                                 @ [CHR 0x0A] @ ''  }'')) ys))
     @ [CHR 0x0A] @ '']''"
proof -
  assume ne: "ks \<noteq> []"
  have q: "json_string ''name'' = [CHR 0x22] @ ''name'' @ [CHR 0x22]"
          "json_string ''description'' = [CHR 0x22] @ ''description'' @ [CHR 0x22]"
    by (simp_all add: json_string_def json_escape_def)
  show ?thesis
    unfolding json_stringify_pretty_def map_map join_map
    using ne
    by (simp add: comp_def json_object_pretty_def name_and_description_def q newline_def
             split: list.splits)
qed

text \<open>
  C10: \<open>labelsToPrompt\<close> returns \<open>null\<close> for the empty list. For a non-empty list
  the emitted prompt is written from exactly the labels outside the trigger namespace,
  in input order, and from no other label: those whose part before the first colon
  differs from the trigger, or, in the verbose variant, those whose name does not
  start with the trigger (the verbose variant returns \<open>null\<close> when none is left). The
  text is spelled out for both variants and both modes: the names separated by a comma
  and a space, or the JSON array of the objects with the name and the description of
  each kept label. A string appears in the JSON text as a literal that denotes it, and
  as the string itself between double quotes when it needs no escape.
\<close>

theorem labelsToPrompt_emits_non_trigger_labels:
  "(let dq = [CHR 0x22];
        nl = [CHR 0x0A];
        descr = (\<lambda>l. case description l of None \<Rightarrow> [] | Some d \<Rightarrow> d);
        obj = (\<lambda>l. ''{'' @ dq @ ''name'' @ dq @ '':'' @ json_string (name l) @ '',''
                    @ dq @ ''description'' @ dq @ '':'' @ json_string (descr l) @ ''}'');
        pretty = (\<lambda>l. ''  {'' @ nl @ ''    '' @ dq @ ''name'' @ dq @ '': ''
                       @ json_string (name l) @ '','' @ nl @ ''    '' @ dq @ ''description''
                       @ dq @ '': '' @ json_string (descr l) @ nl @ ''  }'');
        listed = (\<lambda>sep f ks. case ks of
                                [] \<Rightarrow> []
                              | x # ys \<Rightarrow> f x @ concat (map (\<lambda>y. sep @ f y) ys));
        kept = filter (\<lambda>l. takeWhile (\<lambda>c. c \<noteq> CHR '':'') (name l) \<noteq> t) ls;
        kept_verbose = filter (\<lambda>l. \<not> prefix t (name l)) ls
    in labelsToPrompt [] t prePrompt returnJson = None
       \<and> labelsToPrompt_verbose [] t prePrompt returnJson = None
       \<and> (ls \<noteq> [] \<longrightarrow>
            labelsToPrompt ls t prePrompt False
              = Some (prePrompt @ '' '' @ listed '', '' name kept)
            \<and> labelsToPrompt ls t prePrompt True
              = Some (''['' @ listed '','' obj kept @ '']'')
            \<and> labelsToPrompt_verbose ls t prePrompt False
              = (if kept_verbose = [] then None
                 else Some (prePrompt @ '' '' @ listed '', '' name kept_verbose))
            \<and> labelsToPrompt_verbose ls t prePrompt True
              = (if kept_verbose = [] then None
                 else Some (prePrompt @ '' '' @ ''['' @ nl
                            @ listed ('','' @ nl) pretty kept_verbose @ nl @ '']'')))
       \<and> json_string_value (json_string s) = Some s
       \<and> ((\<forall>c \<in> set s. 32 \<le> (of_char c :: nat) \<and> c \<noteq> CHR 0x22 \<and> c \<noteq> CHR 0x5C)
            \<longrightarrow> json_string s = dq @ s @ dq))"
proof -
  let ?kept = "filter (\<lambda>l. takeWhile (\<lambda>c. c \<noteq> CHR '':'') (name l) \<noteq> t) ls"
  let ?keptv = "filter (\<lambda>l. \<not> prefix t (name l)) ls"
  have e: "labelsToPrompt [] t prePrompt returnJson = None"
          "labelsToPrompt_verbose [] t prePrompt returnJson = None"
    by (simp_all add: labelsToPrompt_def labelsToPrompt_verbose_def)
  have a1: "labelsToPrompt ls t prePrompt False
              = Some (prePrompt @ '' '' @ join '', '' (map name ?kept))" if "ls \<noteq> []"
    using that by (simp add: labelsToPrompt_def labelsWithoutAnnotationLabel_filter)
  have a2: "labelsToPrompt ls t prePrompt True
              = Some (json_stringify (map name_and_description ?kept))" if "ls \<noteq> []"
    using that by (simp add: labelsToPrompt_def labelsWithoutAnnotationLabel_filter)
  have v1: "labelsToPrompt_verbose ls t prePrompt False
              = (if ?keptv = [] then None
                 else Some (prePrompt @ '' '' @ join '', '' (map name ?keptv)))" if "ls \<noteq> []"
    using that by (simp add: labelsToPrompt_verbose_def labelsWithoutAnnotationLabel_verbose_filter)
  have v2: "labelsToPrompt_verbose ls t prePrompt True
              = (if ?keptv = [] then None
                 else Some (prePrompt @ '' ''
                            @ json_stringify_pretty (map name_and_description ?keptv)))"
    if "ls \<noteq> []"
    using that by (simp add: labelsToPrompt_verbose_def labelsWithoutAnnotationLabel_verbose_filter)
  have p: "(\<forall>c \<in> set s. 32 \<le> (of_char c :: nat) \<and> c \<noteq> CHR 0x22 \<and> c \<noteq> CHR 0x5C)
             \<longrightarrow> json_string s = [CHR 0x22] @ s @ [CHR 0x22]"
    using json_string_plain by blast
  show ?thesis
    unfolding Let_def
  proof (intro conjI impI)
    assume ne: "ls \<noteq> []"
    show "labelsToPrompt ls t prePrompt False
            = Some (prePrompt @ '' ''
                    @ (case ?kept of [] \<Rightarrow> []
                       | x # ys \<Rightarrow> name x @ concat (map (\<lambda>y. '', '' @ name y) ys)))"
      by (simp only: a1 [OF ne] join_map)
    show "labelsToPrompt_verbose ls t prePrompt False
            = (if ?keptv = [] then None
               else Some (prePrompt @ '' ''
                          @ (case ?keptv of [] \<Rightarrow> []
                             | x # ys \<Rightarrow> name x @ concat (map (\<lambda>y. '', '' @ name y) ys))))"
      by (simp only: v1 [OF ne] join_map)
    show "labelsToPrompt ls t prePrompt True =
            Some (''['' @ (case ?kept of [] \<Rightarrow> []
                    | x # ys \<Rightarrow>
                        (''{'' @ [CHR 0x22] @ ''name'' @ [CHR 0x22] @ '':'' @ json_string (name x) @ '',''
                         @ [CHR 0x22] @ ''description'' @ [CHR 0x22] @ '':''
                         @ json_string (case description x of None \<Rightarrow> [] | Some d \<Rightarrow> d) @ ''}'')
                        @ concat (map (\<lambda>y. '','' @ (''{'' @ [CHR 0x22] @ ''name'' @ [CHR 0x22] @ '':''
                                   @ json_string (name y) @ '','' @ [CHR 0x22] @ ''description''
                                   @ [CHR 0x22] @ '':''
                                   @ json_string (case description y of None \<Rightarrow> [] | Some d \<Rightarrow> d)
                                   @ ''}'')) ys))
                  @ '']'')"
      by (simp only: a2 [OF ne] json_stringify_text)
    show "labelsToPrompt_verbose ls t prePrompt True =
            (if ?keptv = [] then None
             else Some (prePrompt @ '' '' @ ''['' @ [CHR 0x0A]
     @ (case ?keptv of
          [] \<Rightarrow> []
        | x # ys \<Rightarrow>
            (''  {'' @ [CHR 0x0A] @ ''    '' @ [CHR 0x22] @ ''name'' @ [CHR 0x22] @ '': ''
             @ json_string (name x) @ '','' @ [CHR 0x0A] @ ''    '' @ [CHR 0x22] @ ''description''
             @ [CHR 0x22] @ '': '' @ json_string (case description x of None \<Rightarrow> [] | Some d \<Rightarrow> d)
             @ [CHR 0x0A] @ ''  }'')
            @ concat (map (\<lambda>y. ('','' @ [CHR 0x0A])
                              @ (''  {'' @ [CHR 0x0A] @ ''    '' @ [CHR 0x22] @ ''name'' @ [CHR 0x22]
                                 @ '': '' @ json_string (name y) @ '','' @ [CHR 0x0A] @ ''    ''
                                 @ [CHR 0x22] @ ''description'' @ [CHR 0x22] @ '': ''
                                 @ json_string (case description y of None \<Rightarrow> [] | Some d \<Rightarrow> d)
                                 @ [CHR 0x0A] @ ''  }'')) ys))
     @ [CHR 0x0A] @ '']''))"
    proof (cases "?keptv = []")
      case True
      then show ?thesis by (simp add: v2 [OF ne])
    next
      case False
      then show ?thesis
        by (simp only: v2 [OF ne] if_False json_stringify_pretty_text [OF False])
    qed
  qed (simp_all add: e json_string_value_json_string p del: append.simps append_Cons)
qed

theorem labelsToPrompt_emits_non_trigger_labels_witness:
  "(let dq = [CHR 0x22]; nl = [CHR 0x0A]
    in labelsToPrompt example_labels ''do'' ''Tags:'' False = Some ''Tags: x, dox''
       \<and> labelsToPrompt example_labels ''do'' ''Tags:'' True
           = Some (''[{'' @ dq @ ''name'' @ dq @ '':'' @ dq @ ''x'' @ dq @ '',''
                   @ dq @ ''description'' @ dq @ '':'' @ dq @ dq
                   @ ''},{'' @ dq @ ''name'' @ dq @ '':'' @ dq @ ''dox'' @ dq @ '',''
                   @ dq @ ''description'' @ dq @ '':'' @ dq @ ''d'' @ dq @ ''}]'')
       \<and> labelsToPrompt_verbose example_labels ''do'' ''Tags:'' False = Some ''Tags: x''
       \<and> labelsToPrompt_verbose example_labels ''do'' ''Tags:'' True
           = Some (''Tags: ['' @ nl @ ''  {'' @ nl
                   @ ''    '' @ dq @ ''name'' @ dq @ '': '' @ dq @ ''x'' @ dq @ '','' @ nl
                   @ ''    '' @ dq @ ''description'' @ dq @ '': '' @ dq @ dq @ nl
                   @ ''  }'' @ nl @ '']'')
       \<and> labelsToPrompt_verbose [\<lparr>name = ''do:tags'', description = None\<rparr>] ''do'' ''Tags:'' True
           = None
       \<and> json_string ''dox'' = dq @ ''dox'' @ dq
       \<and> json_string_value (json_string ''dox'') = Some ''dox'')"
  using labelsToPrompt_emits_non_trigger_labels
          [where ls = example_labels and t = "''do''" and prePrompt = "''Tags:''"
             and s = "''dox''"]
        labelsToPrompt_emits_non_trigger_labels
          [where ls = "[\<lparr>name = ''do:tags'', description = None\<rparr>]" and t = "''do''"
             and prePrompt = "''Tags:''" and s = "''x''"]
  by (simp add: Let_def example_labels_def json_string_def json_escape_def)

end
